theory Spec2Isabelle
  imports Main "HOL-Library.Word"
begin

section \<open>The X connection setup of \<open>conn.go\<close>\<close>

text \<open>
  The theory embeds \<open>src/conn.go\<close>: the method \<open>dial\<close> (display string parsing and
  choice of the transport) and the method \<open>connect\<close> (authority lookup, the client
  hello, the decoding of the server's answer, the default screen). Go's \<open>int\<close> is
  taken to be 64 bits wide. A Go \<open>string\<close> is a sequence of bytes and is modelled by
  \<open>string\<close>; a \<open>[]byte\<close> is a list of 8-bit words.
\<close>

subsection \<open>Bytes and strings\<close>

type_synonym byte = "8 word"

text \<open>The conversions \<open>[]byte(s)\<close> and \<open>string(b)\<close>.\<close>

definition byte_of_char :: "char \<Rightarrow> byte" where
  "byte_of_char ch = of_nat (of_char ch)"

definition char_of_byte :: "byte \<Rightarrow> char" where
  "char_of_byte b = char_of (unat b)"

definition bytes_of :: "string \<Rightarrow> byte list" where
  "bytes_of s = map byte_of_char s"

definition string_of :: "byte list \<Rightarrow> string" where
  "string_of bs = map char_of_byte bs"

text \<open>
  \<open>strings.LastIndex(s, sep)\<close> for a separator of one character: the index of its
  last occurrence, \<open>None\<close> where Go returns \<open>-1\<close>.
\<close>

fun LastIndex :: "string \<Rightarrow> char \<Rightarrow> nat option" where
  "LastIndex [] ch = None"
| "LastIndex (x # xs) ch =
     (case LastIndex xs ch of
        Some i \<Rightarrow> Some (Suc i)
      | None \<Rightarrow> (if x = ch then Some 0 else None))"

text \<open>The slice expression \<open>s[lo:hi]\<close> for indices that are in range.\<close>

definition slice :: "'a list \<Rightarrow> nat \<Rightarrow> nat \<Rightarrow> 'a list" where
  "slice s lo hi = take (hi - lo) (drop lo s)"

subsection \<open>Helpers of the package that \<open>conn.go\<close> calls\<close>

text \<open>
  Modelled from the spec: the helper \<open>pad\<close>, which is called in \<open>conn.go\<close> (lines 41
  and 50) and declared elsewhere in the package. In the wire layout of the
  specification the name is padded with zero bytes up to a multiple of 4, the data
  starts at offset \<open>12+pad(len(authName))\<close> and the hello has
  \<open>12 + pad(len(authName)) + pad(len(authData))\<close> bytes. Lines 41 and 50 use the
  helper in this way, for the length of the buffer and for the offset of the data:
  \<open>pad(n)\<close> is \<open>n\<close> rounded up to the next multiple of 4, and the number of filler
  bytes is \<open>pad(n) - n\<close>. (One sentence of the specification gives the name \<open>pad(n)\<close>
  to the number of filler bytes, 0 to 3; a buffer of that length could not hold the
  name and the data.)
\<close>

definition pad :: "nat \<Rightarrow> nat" where
  "pad n = (n + 3) div 4 * 4"

text \<open>
  Modelled from the spec: the byte-order helpers \<open>Put16\<close> and \<open>Get16\<close>, declared
  elsewhere in the package. The hello announces the little-endian byte order
  (\<open>0x6c\<close>), so the low byte comes first. \<open>Put16_at buf off v\<close> is
  \<open>Put16(buf[off:], v)\<close>, which writes through the slice into \<open>buf\<close>.
\<close>

definition Put16_at :: "byte list \<Rightarrow> nat \<Rightarrow> 16 word \<Rightarrow> byte list" where
  "Put16_at buf off v = buf[off := ucast v, Suc off := ucast (drop_bit 8 v)]"

definition Get16 :: "byte list \<Rightarrow> 16 word" where
  "Get16 buf = or (ucast (buf ! 0)) (push_bit 8 (ucast (buf ! 1)))"

text \<open>
  The builtin \<open>copy(buf[off:], src)\<close>: it copies as many bytes as fit into the rest
  of \<open>buf\<close> and leaves the other bytes of \<open>buf\<close> as they are.
\<close>

definition copy_at :: "byte list \<Rightarrow> nat \<Rightarrow> byte list \<Rightarrow> byte list" where
  "copy_at buf off src =
     take off buf @ take (length buf - off) src @ drop (off + length src) buf"

subsection \<open>The client hello (\<open>connect\<close>, lines 41 to 50)\<close>

text \<open>
  The buffer is created filled with zeros; its length is at least 12, so the fixed
  fields are in range.
\<close>

definition encodeHello :: "string \<Rightarrow> byte list \<Rightarrow> byte list" where
  "encodeHello authName authData =
     (let buf0 = replicate (12 + pad (length authName) + pad (length authData)) (0 :: byte);
          buf1 = buf0[0 := 0x6c];
          buf2 = buf1[1 := 0];
          buf3 = Put16_at buf2 2 11;
          buf4 = Put16_at buf3 4 0;
          buf5 = Put16_at buf4 6 (of_nat (length authName));
          buf6 = Put16_at buf5 8 (of_nat (length authData));
          buf7 = Put16_at buf6 10 0;
          buf8 = copy_at buf7 12 (bytes_of authName)
      in copy_at buf8 (12 + pad (length authName)) authData)"

subsection \<open>Numbers: \<open>strconv.Atoi\<close>, \<open>strconv.Itoa\<close> and addition on \<open>int\<close>\<close>

text \<open>
  \<open>strconv.Atoi\<close> accepts an optional sign and decimal digits. It returns a value
  together with the error: 0 with a syntax error, the nearest bound of the 64-bit
  range with a range error. \<open>parseUint\<close> is the digit loop of \<open>strconv.ParseUint\<close>
  for base 10 and 64 bits.
\<close>

datatype NumError = ErrSyntax | ErrRange

definition isDigit :: "char \<Rightarrow> bool" where
  "isDigit ch = ((48 :: int) \<le> of_char ch \<and> of_char ch \<le> (57 :: int))"

definition digitVal :: "char \<Rightarrow> int" where
  "digitVal ch = of_char ch - 48"

fun parseUint :: "int \<Rightarrow> string \<Rightarrow> int \<times> NumError option" where
  "parseUint n [] = (n, None)"
| "parseUint n (ch # cs) =
     (if \<not> isDigit ch then (0, Some ErrSyntax)
      else if (2 ^ 64 - 1) div 10 + 1 \<le> n then (2 ^ 64 - 1, Some ErrRange)
      else if 2 ^ 64 \<le> n * 10 + digitVal ch then (2 ^ 64 - 1, Some ErrRange)
      else parseUint (n * 10 + digitVal ch) cs)"

definition Atoi :: "string \<Rightarrow> int \<times> NumError option" where
  "Atoi s =
     (case s of
        [] \<Rightarrow> (0, Some ErrSyntax)
      | ch # cs \<Rightarrow>
          (let neg = (ch = CHR ''-'');
               ds = (if ch = CHR ''+'' \<or> ch = CHR ''-'' then cs else s)
           in if ds = [] then (0, Some ErrSyntax)
              else (case parseUint 0 ds of
                      (un, e) \<Rightarrow>
                        if e = Some ErrSyntax then (0, Some ErrSyntax)
                        else if \<not> neg \<and> 2 ^ 63 \<le> un then (2 ^ 63 - 1, Some ErrRange)
                        else if neg \<and> 2 ^ 63 < un then (- (2 ^ 63), Some ErrRange)
                        else (if neg then - un else un, None))))"

text \<open>\<open>strconv.Itoa\<close>: the decimal digits, with a minus sign for a negative number.\<close>

definition digitChar :: "int \<Rightarrow> char" where
  "digitChar d = char_of (48 + d)"

function decimal :: "int \<Rightarrow> string" where
  "decimal n = (if n < 10 then [digitChar n] else decimal (n div 10) @ [digitChar (n mod 10)])"
  by pat_completeness auto
termination
  by (relation "measure nat") auto

definition Itoa :: "int \<Rightarrow> string" where
  "Itoa i = (if i < 0 then CHR ''-'' # decimal (- i) else decimal i)"

text \<open>Addition on Go's \<open>int\<close>: two's complement, 64 bits, wrapping around.\<close>

definition intAdd :: "int \<Rightarrow> int \<Rightarrow> int" where
  "intAdd a b = (a + b + 2 ^ 63) mod 2 ^ 64 - 2 ^ 63"

subsection \<open>Errors, the transport and the connection record\<close>

text \<open>
  The errors that \<open>connect\<close> and \<open>dial\<close> return, one constructor for each message
  of the source, and the run-time panics that the source can raise.
\<close>

datatype io_error = EOF | ErrUnexpectedEOF | WriteFailed string

datatype error =
    EmptyDisplay
  | BadDisplay string
  | CannotConnect string string
  | UnsupportedAuth string
  | TransportError io_error
  | VersionMismatch "16 word" "16 word"
  | AuthRefused string
  | SliceBoundsPanic nat nat
  | NilConnPanic

text \<open>
  The transport \<open>c.conn\<close>, a \<open>net.Conn\<close>: the bytes that the server will send before
  the stream ends, the bytes written to it, whether \<open>Write\<close> fails, and whether it
  has been closed.
\<close>

record NetConn =
  incoming :: "byte list"
  outgoing :: "byte list"
  writeError :: "io_error option"
  closed :: bool

definition Write :: "NetConn \<Rightarrow> byte list \<Rightarrow> io_error + NetConn" where
  "Write t buf =
     (case writeError t of
        Some e \<Rightarrow> Inl e
      | None \<Rightarrow> Inr (t\<lparr>outgoing := outgoing t @ buf\<rparr>))"

text \<open>\<open>io.ReadFull\<close> with a buffer of \<open>n\<close> bytes: all of them or an error.\<close>

definition ReadFull :: "NetConn \<Rightarrow> nat \<Rightarrow> (io_error + byte list) \<times> NetConn" where
  "ReadFull t n =
     (if n \<le> length (incoming t)
      then (Inr (take n (incoming t)), t\<lparr>incoming := drop n (incoming t)\<rparr>)
      else (Inl (if incoming t = [] then EOF else ErrUnexpectedEOF), t\<lparr>incoming := []\<rparr>))"

text \<open>
  The setup that \<open>ReadSetupInfo\<close> fills in; \<open>connect\<close> reads only the number of its
  \<open>Roots\<close>. The record \<open>Conn\<close> has the fields that \<open>conn.go\<close> uses.
\<close>

datatype ScreenInfo = ScreenInfo "byte list"

record SetupInfo =
  Roots :: "ScreenInfo list"

record Conn =
  host :: string
  display :: string
  defaultScreen :: int
  conn :: "NetConn option"
  Setup :: SetupInfo

text \<open>
  What \<open>connect\<close> takes from outside the package: the value of
  \<open>os.Getenv("DISPLAY")\<close>, \<open>net.Dial\<close> (an error text or a transport),
  \<open>readAuthority\<close> (an error text or a name and data) and \<open>ReadSetupInfo\<close>.
\<close>

record Externals =
  getenvDISPLAY :: string
  netDial :: "string \<Rightarrow> string \<Rightarrow> string + NetConn"
  readAuthority :: "string \<Rightarrow> string \<Rightarrow> string + string \<times> byte list"
  ReadSetupInfo :: "byte list \<Rightarrow> SetupInfo \<Rightarrow> SetupInfo"

text \<open>The two lines that \<open>connect\<close> prints on \<open>os.Stderr\<close>.\<close>

datatype LogLine = CouldNotGetAuthority string | TryingWithoutAuthority

subsection \<open>\<open>dial\<close>: the display string (lines 93 to 145)\<close>

text \<open>
  The local variables \<open>protocol\<close>, \<open>socket\<close> and \<open>dispnum\<close> as they are at line 147.
\<close>

record DialVars =
  protocol :: string
  socket :: string
  dispnum :: int

text \<open>
  Lines 107 to 119. The search for \<open>/\<close> runs over the whole display string, and
  \<open>display[slashIdx+1 : colonIdx]\<close> panics when the lower index is above the upper
  one. The result is \<open>protocol\<close>, \<open>socket\<close> and the record with \<open>host\<close> assigned.
\<close>

definition splitHost :: "string \<Rightarrow> nat \<Rightarrow> Conn \<Rightarrow> error + string \<times> string \<times> Conn" where
  "splitHost d colonIdx c =
     (if d ! 0 = CHR ''/'' then Inr ('''', slice d 0 colonIdx, c)
      else (case LastIndex d CHR ''/'' of
              Some slashIdx \<Rightarrow>
                if slashIdx + 1 \<le> colonIdx
                then Inr (slice d 0 slashIdx, '''', c\<lparr>host := slice d (slashIdx + 1) colonIdx\<rparr>)
                else Inl (SliceBoundsPanic (slashIdx + 1) colonIdx)
            | None \<Rightarrow> Inr ('''', '''', c\<lparr>host := slice d 0 colonIdx\<rparr>)))"

text \<open>Lines 126 to 133: the screen string \<open>scr\<close> and the record with \<open>display\<close> assigned.\<close>

definition splitScreen :: "string \<Rightarrow> Conn \<Rightarrow> string \<times> Conn" where
  "splitScreen rest c =
     (case LastIndex rest CHR ''.'' of
        None \<Rightarrow> ('''', c\<lparr>display := rest\<rparr>)
      | Some dotIdx \<Rightarrow>
          (slice rest (dotIdx + 1) (length rest), c\<lparr>display := slice rest 0 dotIdx\<rparr>))"

text \<open>
  Lines 93 to 145. \<open>Inl\<close> is an error return, with the record as it is at that
  moment; \<open>Inr\<close> is the state at line 147.
\<close>

definition displayString :: "string \<Rightarrow> string \<Rightarrow> string" where
  "displayString env dsp = (if length dsp = 0 then env else dsp)"

definition parseDisplay :: "string \<Rightarrow> Conn \<Rightarrow> string \<Rightarrow> error \<times> Conn + DialVars \<times> Conn" where
  "parseDisplay env c dsp =
     (let d = displayString env dsp in
      if length d = 0 then Inl (EmptyDisplay, c)
      else (case LastIndex d CHR '':'' of
              None \<Rightarrow> Inl (BadDisplay d, c)
            | Some colonIdx \<Rightarrow>
                (case splitHost d colonIdx c of
                   Inl e \<Rightarrow> Inl (e, c)
                 | Inr (proto, sock, c1) \<Rightarrow>
                     (let rest = slice d (colonIdx + 1) (length d) in
                      if length rest = 0 then Inl (BadDisplay d, c1)
                      else (case splitScreen rest c1 of
                              (scr, c2) \<Rightarrow>
                                (case Atoi (display c2) of
                                   (n, err) \<Rightarrow>
                                     if err \<noteq> None \<or> n < 0 then Inl (BadDisplay d, c2)
                                     else if length scr \<noteq> 0
                                     then (case Atoi scr of
                                             (k, err') \<Rightarrow>
                                               if err' \<noteq> None
                                               then Inl (BadDisplay d, c2\<lparr>defaultScreen := k\<rparr>)
                                               else Inr (\<lparr>protocol = proto, socket = sock, dispnum = n\<rparr>,
                                                         c2\<lparr>defaultScreen := k\<rparr>))
                                     else Inr (\<lparr>protocol = proto, socket = sock, dispnum = n\<rparr>, c2)))))))"

subsection \<open>\<open>dial\<close>: the transport (lines 147 to 163)\<close>

text \<open>The network and the address that lines 148 to 157 pass to \<open>net.Dial\<close>.\<close>

definition dialTarget :: "DialVars \<Rightarrow> Conn \<Rightarrow> string \<times> string" where
  "dialTarget v c =
     (if length (socket v) \<noteq> 0 then (''unix'', socket v @ '':'' @ display c)
      else if length (host c) \<noteq> 0
      then (if protocol v = '''' then ''tcp'' else protocol v,
            host c @ '':'' @ Itoa (intAdd 6000 (dispnum v)))
      else (''unix'', ''/tmp/.X11-unix/X'' @ display c))"

definition dial :: "Externals \<Rightarrow> Conn \<Rightarrow> string \<Rightarrow> error option \<times> Conn" where
  "dial ext c dsp =
     (case parseDisplay (getenvDISPLAY ext) c dsp of
        Inl (e, c1) \<Rightarrow> (Some e, c1)
      | Inr (v, c1) \<Rightarrow>
          (case netDial ext (fst (dialTarget v c1)) (snd (dialTarget v c1)) of
             Inl msg \<Rightarrow>
               (Some (CannotConnect (displayString (getenvDISPLAY ext) dsp) msg), c1\<lparr>conn := None\<rparr>)
           | Inr t \<Rightarrow> (None, c1\<lparr>conn := Some t\<rparr>)))"

subsection \<open>\<open>connect\<close>: the server's answer (lines 55 to 80)\<close>

text \<open>
  \<open>reasonLen\<close> is a byte, so \<open>8+reasonLen\<close> is computed on 8 bits; the slice
  expression \<open>buf[8 : 8+reasonLen]\<close> panics unless \<open>8 \<le> 8+reasonLen \<le> len(buf)\<close>.
\<close>

definition refusalReason :: "byte list \<Rightarrow> byte \<Rightarrow> error" where
  "refusalReason buf reasonLen =
     (if 8 \<le> unat (8 + reasonLen) \<and> unat (8 + reasonLen) \<le> length buf
      then AuthRefused (string_of (slice buf 8 (unat (8 + reasonLen))))
      else SliceBoundsPanic 8 (unat (8 + reasonLen)))"

text \<open>
  The result is the error, or the buffer of the header and the body, and the
  transport after the reads.
\<close>

definition readReply :: "NetConn \<Rightarrow> (error + byte list) \<times> NetConn" where
  "readReply t =
     (case ReadFull t 8 of
        (Inl e, t1) \<Rightarrow> (Inl (TransportError e), t1)
      | (Inr head, t1) \<Rightarrow>
          (let code = head ! 0;
               reasonLen = head ! 1;
               major = Get16 (drop 2 head);
               minor = Get16 (drop 4 head);
               dataLen = Get16 (drop 6 head)
           in if major \<noteq> 11 \<or> minor \<noteq> 0 then (Inl (VersionMismatch major minor), t1)
              else (case ReadFull t1 (unat dataLen * 4) of
                      (Inl e, t2) \<Rightarrow> (Inl (TransportError e), t2)
                    | (Inr body, t2) \<Rightarrow>
                        if code = 0 then (Inl (refusalReason (head @ body) reasonLen), t2)
                        else (Inr (head @ body), t2))))"

subsection \<open>\<open>connect\<close> (lines 19 to 89)\<close>

text \<open>Lines 26 to 34: the credential, the flag \<open>noauth\<close> and the lines printed.\<close>

definition authority :: "Externals \<Rightarrow> Conn \<Rightarrow> string \<times> byte list \<times> bool \<times> LogLine list" where
  "authority ext c =
     (case readAuthority ext (host c) (display c) of
        Inl e \<Rightarrow> ('''', [], True, [CouldNotGetAuthority e, TryingWithoutAuthority])
      | Inr (authName, authData) \<Rightarrow> (authName, authData, False, []))"

text \<open>Lines 41 to 88: the hello is written, the answer is read, the setup is parsed.\<close>

definition handshake :: "Externals \<Rightarrow> Conn \<Rightarrow> string \<Rightarrow> byte list \<Rightarrow> error option \<times> Conn" where
  "handshake ext c authName authData =
     (case conn c of
        None \<Rightarrow> (Some NilConnPanic, c)
      | Some t \<Rightarrow>
          (case Write t (encodeHello authName authData) of
             Inl e \<Rightarrow> (Some (TransportError e), c)
           | Inr t1 \<Rightarrow>
               (case readReply t1 of
                  (Inl e, t2) \<Rightarrow> (Some e, c\<lparr>conn := Some t2\<rparr>)
                | (Inr buf, t2) \<Rightarrow>
                    (let c1 = c\<lparr>conn := Some t2, Setup := ReadSetupInfo ext buf (Setup c)\<rparr>
                     in if int (length (Roots (Setup c1))) \<le> defaultScreen c1
                        then (None, c1\<lparr>defaultScreen := 0\<rparr>)
                        else (None, c1)))))"

definition connect :: "Externals \<Rightarrow> Conn \<Rightarrow> string \<Rightarrow> error option \<times> Conn \<times> LogLine list" where
  "connect ext c dsp =
     (case dial ext c dsp of
        (Some e, c1) \<Rightarrow> (Some e, c1, [])
      | (None, c1) \<Rightarrow>
          (case authority ext c1 of
             (authName, authData, noauth, logged) \<Rightarrow>
               if \<not> noauth \<and> (authName \<noteq> ''MIT-MAGIC-COOKIE-1'' \<or> length authData \<noteq> 16)
               then (Some (UnsupportedAuth authName), c1, logged)
               else (case handshake ext c1 authName authData of
                       (r, c2) \<Rightarrow> (r, c2, logged))))"

subsection \<open>Concrete inputs\<close>

text \<open>The zero value of \<open>Conn\<close>, on which a new connection starts.\<close>

definition zeroConn :: Conn where
  "zeroConn = \<lparr>host = '''', display = '''', defaultScreen = 0, conn = None,
                Setup = \<lparr>Roots = []\<rparr>\<rparr>"

text \<open>
  The twelve fixed bytes that lines 42 to 48 write, for a name and data of the
  given lengths.
\<close>

definition helloHeader :: "nat \<Rightarrow> nat \<Rightarrow> byte list" where
  "helloHeader ln ld =
     [0x6c, 0, 11, 0, 0, 0,
      ucast (of_nat ln :: 16 word), ucast (drop_bit 8 (of_nat ln :: 16 word)),
      ucast (of_nat ld :: 16 word), ucast (drop_bit 8 (of_nat ld :: 16 word)), 0, 0]"

text \<open>A credential of the supported shape.\<close>

definition exampleCookie :: "byte list" where
  "exampleCookie = [1, 2, 3, 4, 5, 6, 7, 8, 9, 10, 11, 12, 13, 14, 15, 16]"

text \<open>
  A server for concrete runs: \<open>DISPLAY\<close> is not set, \<open>net.Dial\<close> gives an open
  transport on which the server sends \<open>reply\<close>, there is no authority file, and
  \<open>ReadSetupInfo\<close> finds one screen. \<open>withAuthority\<close> makes the authority lookup
  succeed with a given credential.
\<close>

definition exampleServer :: "byte list \<Rightarrow> Externals" where
  "exampleServer reply =
     \<lparr>getenvDISPLAY = '''',
      netDial = (\<lambda>network address.
        Inr \<lparr>incoming = reply, outgoing = [], writeError = None, closed = False\<rparr>),
      readAuthority = (\<lambda>h d. Inl ''no authority file''),
      ReadSetupInfo = (\<lambda>buf s. s\<lparr>Roots := [ScreenInfo buf]\<rparr>)\<rparr>"

definition withAuthority :: "string \<times> byte list \<Rightarrow> Externals \<Rightarrow> Externals" where
  "withAuthority cred ext = ext\<lparr>readAuthority := (\<lambda>h d. Inr cred)\<rparr>"

text \<open>
  Answers of the server: status 1 with version 11.0 and no body; status 1 with
  version 10.0; status 0 (refused) with a reason of 250 bytes in a body of 63
  units of 4 bytes.
\<close>

definition acceptReply :: "byte list" where
  "acceptReply = [1, 0, 11, 0, 0, 0, 0, 0]"

definition mismatchReply :: "byte list" where
  "mismatchReply = [1, 0, 10, 0, 0, 0, 0, 0]"

definition longRefusal :: "byte list" where
  "longRefusal = [0, 250, 11, 0, 0, 0, 63, 0] @ replicate 252 65"

section \<open>Properties\<close>

subsection \<open>The padding helper\<close>

lemma pad_minus_mod: "pad n = n + 3 - (n + 3) mod 4"
  by (simp add: pad_def minus_mod_eq_div_mult)

lemma pad_ge: "n \<le> pad n"
proof -
  have "(n + 3) mod 4 \<le> 3" by simp
  then show ?thesis unfolding pad_minus_mod by linarith
qed

lemma pad_le: "pad n \<le> n + 3"
  unfolding pad_minus_mod by simp

lemma pad_multiple: "pad n mod 4 = 0"
  by (simp add: pad_def)

lemma pad_idempotent: "pad (pad n) = pad n"
proof -
  have "(k * 4 + 3) div 4 = k" for k :: nat by simp
  then show ?thesis by (simp add: pad_def)
qed

text \<open>
  Claim C2, as stated: \<open>0 \<le> pad(n) \<le> 3\<close>, \<open>(n + pad(n)) % 4 == 0\<close> and
  \<open>pad(pad(n)) == pad(n)\<close> for every \<open>n \<ge> 0\<close>. It fails at \<open>n = 1\<close>: \<open>pad(1) = 4\<close>,
  which is above 3, and \<open>1 + pad(1) = 5\<close> is no multiple of 4.
\<close>

theorem pad_bounds_counterexample:
  "\<not> (0 \<le> pad 1 \<and> pad 1 \<le> 3 \<and> (1 + pad 1) mod 4 = 0 \<and> pad (pad 1) = pad 1)"
  by (simp add: pad_def)

text \<open>
  Claim C2, amended: for every \<open>n \<ge> 0\<close>, \<open>pad(n)\<close> is \<open>n\<close> rounded up to a multiple of
  4: the number of filler bytes \<open>pad(n) - n\<close> is between 0 and 3 and \<open>pad(n)\<close>, which
  is \<open>n\<close> plus the filler, is a multiple of 4; and \<open>pad\<close> is idempotent under
  re-application, \<open>pad(pad(n)) == pad(n)\<close>.
\<close>

theorem pad_rounds_up_idempotent:
  "n \<le> pad n \<and> pad n - n \<le> 3 \<and> pad n mod 4 = 0 \<and> (n + (pad n - n)) mod 4 = 0 \<and>
   pad (pad n) = pad n"
  using pad_ge [of n] pad_le [of n] pad_multiple [of n] pad_idempotent [of n] by simp

subsection \<open>The display string\<close>

lemmas parse_defs = parseDisplay_def displayString_def splitHost_def splitScreen_def
  slice_def Atoi_def isDigit_def digitVal_def Let_def

lemma parse_empty: "parseDisplay '''' zeroConn '''' = Inl (EmptyDisplay, zeroConn)"
  by (simp add: parse_defs)

lemma parse_bogus: "parseDisplay '''' zeroConn ''bogus'' = Inl (BadDisplay ''bogus'', zeroConn)"
  by (simp add: parse_defs)

lemma parse_display_only:
  "parseDisplay '''' zeroConn '':0'' =
     Inr (\<lparr>protocol = '''', socket = '''', dispnum = 0\<rparr>,
          \<lparr>host = '''', display = ''0'', defaultScreen = 0, conn = None,
             Setup = \<lparr>Roots = []\<rparr>\<rparr>)"
  by (simp add: parse_defs zeroConn_def)

lemma parse_display_screen:
  "parseDisplay '''' zeroConn '':1.2'' =
     Inr (\<lparr>protocol = '''', socket = '''', dispnum = 1\<rparr>,
          \<lparr>host = '''', display = ''1'', defaultScreen = 2, conn = None,
             Setup = \<lparr>Roots = []\<rparr>\<rparr>)"
  by (simp add: parse_defs zeroConn_def)

lemma parse_host:
  "parseDisplay '''' zeroConn ''host:0'' =
     Inr (\<lparr>protocol = '''', socket = '''', dispnum = 0\<rparr>,
          \<lparr>host = ''host'', display = ''0'', defaultScreen = 0, conn = None,
             Setup = \<lparr>Roots = []\<rparr>\<rparr>)"
  by (simp add: parse_defs zeroConn_def)

lemma parse_protocol_host:
  "parseDisplay '''' zeroConn ''unix/host:0'' =
     Inr (\<lparr>protocol = ''unix'', socket = '''', dispnum = 0\<rparr>,
          \<lparr>host = ''host'', display = ''0'', defaultScreen = 0, conn = None,
             Setup = \<lparr>Roots = []\<rparr>\<rparr>)"
  by (simp add: parse_defs zeroConn_def)

lemma parse_socket:
  "parseDisplay '''' zeroConn ''/tmp/s:0'' =
     Inr (\<lparr>protocol = '''', socket = ''/tmp/s'', dispnum = 0\<rparr>,
          \<lparr>host = '''', display = ''0'', defaultScreen = 0, conn = None,
             Setup = \<lparr>Roots = []\<rparr>\<rparr>)"
  by (simp add: parse_defs zeroConn_def)

text \<open>
  Claim C4: the reference table of display strings. With no \<open>DISPLAY\<close> in the
  environment and a new connection record, the empty string is refused as empty,
  \<open>bogus\<close> as malformed, and the five other entries give the protocol, the socket
  path, the host, the display number (as text in the record and as the number
  \<open>dispnum\<close>) and the screen number of the table.
\<close>

theorem parseDisplay_reference_table:
  "parseDisplay '''' zeroConn '''' = Inl (EmptyDisplay, zeroConn) \<and>
   parseDisplay '''' zeroConn ''bogus'' = Inl (BadDisplay ''bogus'', zeroConn) \<and>
   parseDisplay '''' zeroConn '':0'' =
     Inr (\<lparr>protocol = '''', socket = '''', dispnum = 0\<rparr>,
          \<lparr>host = '''', display = ''0'', defaultScreen = 0, conn = None,
             Setup = \<lparr>Roots = []\<rparr>\<rparr>) \<and>
   parseDisplay '''' zeroConn '':1.2'' =
     Inr (\<lparr>protocol = '''', socket = '''', dispnum = 1\<rparr>,
          \<lparr>host = '''', display = ''1'', defaultScreen = 2, conn = None,
             Setup = \<lparr>Roots = []\<rparr>\<rparr>) \<and>
   parseDisplay '''' zeroConn ''host:0'' =
     Inr (\<lparr>protocol = '''', socket = '''', dispnum = 0\<rparr>,
          \<lparr>host = ''host'', display = ''0'', defaultScreen = 0, conn = None,
             Setup = \<lparr>Roots = []\<rparr>\<rparr>) \<and>
   parseDisplay '''' zeroConn ''unix/host:0'' =
     Inr (\<lparr>protocol = ''unix'', socket = '''', dispnum = 0\<rparr>,
          \<lparr>host = ''host'', display = ''0'', defaultScreen = 0, conn = None,
             Setup = \<lparr>Roots = []\<rparr>\<rparr>) \<and>
   parseDisplay '''' zeroConn ''/tmp/s:0'' =
     Inr (\<lparr>protocol = '''', socket = ''/tmp/s'', dispnum = 0\<rparr>,
          \<lparr>host = '''', display = ''0'', defaultScreen = 0, conn = None,
             Setup = \<lparr>Roots = []\<rparr>\<rparr>)"
  using parse_empty parse_bogus parse_display_only parse_display_screen parse_host
    parse_protocol_host parse_socket
  by blast

theorem parseDisplay_reference_table_witness:
  "(case parseDisplay '''' zeroConn '':1.2'' of
      Inl e \<Rightarrow> False
    | Inr (v, c) \<Rightarrow> dispnum v = 1 \<and> display c = ''1'' \<and> defaultScreen c = 2) \<and>
   (case parseDisplay '''' zeroConn ''unix/host:0'' of
      Inl e \<Rightarrow> False
    | Inr (v, c) \<Rightarrow> protocol v = ''unix'' \<and> host c = ''host'' \<and> dispnum v = 0)"
  using parseDisplay_reference_table by simp

text \<open>
  The split of lines 109 to 119 in general. When no \<open>/\<close> stands at or behind index
  \<open>colonIdx\<close>, the split uses the last \<open>/\<close> of the host part; when one does, the
  slice expression of line 115 panics.
\<close>

lemma LastIndex_None: "(LastIndex s ch = None) = (ch \<notin> set s)"
  by (induction s) (auto split: option.splits)

lemma LastIndex_Some: "LastIndex s ch = Some i \<Longrightarrow> i < length s \<and> s ! i = ch"
  by (induction s arbitrary: i) (auto split: option.splits if_splits)

lemma LastIndex_append_absent:
  "ch \<notin> set ys \<Longrightarrow> LastIndex (xs @ ys) ch = LastIndex xs ch"
  by (induction xs) (auto simp: LastIndex_None split: option.splits)

lemma LastIndex_append_present:
  "LastIndex ys ch = Some j \<Longrightarrow> LastIndex (xs @ ys) ch = Some (length xs + j)"
  by (induction xs) auto

lemma splitHost_slash_in_host_part:
  assumes "colonIdx \<le> length d" and "CHR ''/'' \<notin> set (drop colonIdx d)"
      and "d ! 0 \<noteq> CHR ''/''"
  shows "splitHost d colonIdx c =
           (case LastIndex (take colonIdx d) CHR ''/'' of
              Some i \<Rightarrow> Inr (take i (take colonIdx d), '''',
                           c\<lparr>host := drop (i + 1) (take colonIdx d)\<rparr>)
            | None \<Rightarrow> Inr ('''', '''', c\<lparr>host := take colonIdx d\<rparr>))"
proof -
  have e: "LastIndex d CHR ''/'' = LastIndex (take colonIdx d) CHR ''/''"
    using LastIndex_append_absent [OF assms(2), of "take colonIdx d"] by simp
  show ?thesis
  proof (cases "LastIndex (take colonIdx d) CHR ''/''")
    case None
    then show ?thesis using assms(3) by (simp add: splitHost_def e slice_def)
  next
    case (Some i)
    then have "i < colonIdx" using LastIndex_Some [OF Some] by simp
    then show ?thesis
      using assms(3) Some
      by (simp add: splitHost_def e slice_def drop_take min_def)
  qed
qed

lemma splitHost_slash_after_colon:
  assumes "colonIdx \<le> length d" and "CHR ''/'' \<in> set (drop colonIdx d)"
      and "d ! 0 \<noteq> CHR ''/''"
  shows "\<exists>lo. splitHost d colonIdx c = Inl (SliceBoundsPanic lo colonIdx) \<and> colonIdx < lo"
proof -
  obtain j where j: "LastIndex (drop colonIdx d) CHR ''/'' = Some j"
    using assms(2) LastIndex_None [of "drop colonIdx d" "CHR ''/''"] by (cases "LastIndex (drop colonIdx d) CHR ''/''") auto
  have "LastIndex (take colonIdx d @ drop colonIdx d) CHR ''/'' = Some (length (take colonIdx d) + j)"
    by (rule LastIndex_append_present [OF j])
  then have "LastIndex d CHR ''/'' = Some (colonIdx + j)"
    using assms(1) by (simp add: min_def)
  then show ?thesis using assms(3) by (simp add: splitHost_def)
qed

text \<open>
  Claim C5, at the display string \<open>host:0/1\<close>: the host part \<open>host\<close> has no \<open>/\<close>, so
  the claim gives the host \<open>host\<close> and no protocol. The source looks for the last
  \<open>/\<close> in the whole string, finds it at index 6, behind the colon at index 4, and
  the slice expression \<open>display[7:4]\<close> panics.
\<close>

theorem parseDisplay_slash_after_colon_panics:
  "parseDisplay '''' zeroConn ''host:0/1'' = Inl (SliceBoundsPanic 7 4, zeroConn)"
  by (simp add: parse_defs zeroConn_def)

theorem parseDisplay_slash_after_colon_panics_witness:
  "(case parseDisplay '''' zeroConn ''host:0/1'' of
      Inl (e, c) \<Rightarrow> e = SliceBoundsPanic 7 4 \<and> host c = ''''
    | Inr r \<Rightarrow> False)"
  using parseDisplay_slash_after_colon_panics by (simp add: zeroConn_def)

subsection \<open>The client hello\<close>

lemma Get16_Put16:
  "or (ucast (ucast v :: byte)) (push_bit 8 (ucast (ucast (drop_bit 8 v) :: byte))) = (v :: 16 word)"
  by (rule bit_word_eqI) (auto simp: bit_simps)

lemma replicate_12:
  "replicate (12 + m) x = x # x # x # x # x # x # x # x # x # x # x # x # replicate m x"
  by (simp add: replicate_add numeral_eq_Suc)

lemma fixed_part:
  "Put16_at (Put16_at (Put16_at (Put16_at (Put16_at
     ((replicate (12 + m) (0 :: byte))[0 := 0x6c, 1 := 0]) 2 11) 4 0)
     6 (of_nat ln)) 8 (of_nat ld)) 10 0
   = helloHeader ln ld @ replicate m 0"
proof -
  have w: "ucast (11 :: 16 word) = (11 :: byte)"
    "ucast (drop_bit 8 (11 :: 16 word)) = (0 :: byte)"
    "ucast (0 :: 16 word) = (0 :: byte)" "drop_bit 8 (0 :: 16 word) = 0"
    by simp_all
  have i: "(1 :: nat) = Suc 0" "(2 :: nat) = Suc (Suc 0)"
    "(4 :: nat) = Suc (Suc (Suc (Suc 0)))"
    "(6 :: nat) = Suc (Suc (Suc (Suc (Suc (Suc 0)))))"
    "(8 :: nat) = Suc (Suc (Suc (Suc (Suc (Suc (Suc (Suc 0)))))))"
    "(10 :: nat) = Suc (Suc (Suc (Suc (Suc (Suc (Suc (Suc (Suc (Suc 0)))))))))"
    by simp_all
  show ?thesis
    unfolding replicate_12 Put16_at_def helloHeader_def w
    by (simp only: i list_update_code append_Cons append_Nil)
qed

lemma header_fields:
  "length (helloHeader ln ld) = 12"
  "(helloHeader ln ld @ r) ! 0 = 0x6c"
  "(helloHeader ln ld @ r) ! 1 = 0"
  "Get16 (drop 2 (helloHeader ln ld @ r)) = 11"
  "Get16 (drop 4 (helloHeader ln ld @ r)) = 0"
  "Get16 (drop 6 (helloHeader ln ld @ r)) = of_nat ln"
  "Get16 (drop 8 (helloHeader ln ld @ r)) = of_nat ld"
  "Get16 (drop 10 (helloHeader ln ld @ r)) = 0"
  by (simp_all add: helloHeader_def Get16_def Get16_Put16)

lemma copy_at_append:
  "length h = off \<Longrightarrow> length src \<le> length r \<Longrightarrow>
   copy_at (h @ r) off src = h @ src @ drop (length src) r"
  by (simp add: copy_at_def)

lemma encodeHello_shape:
  "encodeHello authName authData =
     helloHeader (length authName) (length authData) @
     bytes_of authName @ replicate (pad (length authName) - length authName) 0 @
     authData @ replicate (pad (length authData) - length authData) 0"
proof -
  let ?ln = "length authName" and ?ld = "length authData"
  let ?a = "pad ?ln - ?ln" and ?b = "pad ?ld - ?ld"
  let ?h = "helloHeader ?ln ?ld"
  have pn: "pad ?ln = ?ln + ?a" using pad_ge [of ?ln] by simp
  have pd: "pad ?ld = ?ld + ?b" using pad_ge [of ?ld] by simp
  have lh: "length ?h = 12" by (rule header_fields)
  have ln: "length (bytes_of authName) = ?ln" by (simp add: bytes_of_def)
  have 1: "copy_at (?h @ replicate (pad ?ln + pad ?ld) 0) 12 (bytes_of authName)
           = ?h @ bytes_of authName @ replicate (?a + pad ?ld) 0"
  proof -
    have "copy_at (?h @ replicate (pad ?ln + pad ?ld) 0) 12 (bytes_of authName)
           = ?h @ bytes_of authName @ drop ?ln (replicate (pad ?ln + pad ?ld) 0)"
      using pad_ge [of ?ln] by (simp add: copy_at_append lh ln)
    also have "drop ?ln (replicate (pad ?ln + pad ?ld) 0) = replicate (?a + pad ?ld) (0 :: byte)"
      using pad_ge [of ?ln] by simp
    finally show ?thesis .
  qed
  have 2: "?h @ bytes_of authName @ replicate (?a + pad ?ld) 0 =
           (?h @ bytes_of authName @ replicate ?a 0) @ replicate (pad ?ld) 0"
    by (simp add: replicate_add)
  have 3: "copy_at ((?h @ bytes_of authName @ replicate ?a 0) @ replicate (pad ?ld) 0)
             (12 + pad ?ln) authData
           = (?h @ bytes_of authName @ replicate ?a 0) @ authData @
             drop ?ld (replicate (pad ?ld) 0)"
    using pad_ge [of ?ln] pad_ge [of ?ld]
    by (subst copy_at_append) (simp_all add: lh ln)
  have 4: "drop ?ld (replicate (pad ?ld) 0) = replicate ?b (0 :: byte)" by simp
  show ?thesis
    unfolding encodeHello_def Let_def
    by (simp only: add.assoc fixed_part 1 2 3 4) simp
qed

text \<open>
  Line 37 lets \<open>connect\<close> go on to the hello only with the empty credential of the
  failed lookup or with the name \<open>MIT-MAGIC-COOKIE-1\<close> and 16 bytes of data.
\<close>

lemma connect_hello_credential:
  assumes d: "dial ext c dsp = (None, c1)"
      and a: "authority ext c1 = (authName, authData, noauth, logged)"
      and u: "fst (connect ext c dsp) \<noteq> Some (UnsupportedAuth authName)"
  shows "connect ext c dsp =
           (fst (handshake ext c1 authName authData),
            snd (handshake ext c1 authName authData), logged) \<and>
         (authName = '''' \<and> authData = [] \<or>
          authName = ''MIT-MAGIC-COOKIE-1'' \<and> length authData = 16)"
proof -
  have ok: "noauth \<or> authName = ''MIT-MAGIC-COOKIE-1'' \<and> length authData = 16"
  proof (rule ccontr)
    assume "\<not> (noauth \<or> authName = ''MIT-MAGIC-COOKIE-1'' \<and> length authData = 16)"
    then have "fst (connect ext c dsp) = Some (UnsupportedAuth authName)"
      by (auto simp: connect_def d a)
    then show False using u by simp
  qed
  then have k: "connect ext c dsp =
           (fst (handshake ext c1 authName authData),
            snd (handshake ext c1 authName authData), logged)"
    by (auto simp: connect_def d a split: prod.splits)
  have "noauth \<Longrightarrow> authName = '''' \<and> authData = []"
    using a by (auto simp: authority_def split: sum.splits)
  then show ?thesis using ok k by blast
qed

text \<open>
  Claim C1: for every credential with 16 bytes of data (and a name whose length the
  16-bit field can hold, as the names that pass line 37 are), the hello has
  \<open>12 + pad(len(authName)) + pad(16)\<close> bytes; byte 0 is \<open>0x6c\<close>, byte 1 is 0, the
  16-bit fields at offsets 2, 4 and 10 are 11, 0 and 0, the fields at offsets 6 and
  8 are the unpadded lengths of the name and of the data; the name starts at offset
  12 and is followed by zeros up to a multiple of 4, the data starts at offset
  \<open>12 + pad(len(authName))\<close> and is followed by zeros up to a multiple of 4, where
  the hello ends.
\<close>

theorem encodeHello_layout:
  assumes out: "out = encodeHello authName authData"
      and d16: "length authData = 16"
      and nl: "length authName < 65536"
  shows "length out = 12 + pad (length authName) + pad 16 \<and>
         out ! 0 = 0x6c \<and> out ! 1 = 0 \<and>
         Get16 (drop 2 out) = 11 \<and> Get16 (drop 4 out) = 0 \<and>
         unat (Get16 (drop 6 out)) = length authName \<and>
         unat (Get16 (drop 8 out)) = length authData \<and>
         Get16 (drop 10 out) = 0 \<and>
         slice out 12 (12 + length authName) = bytes_of authName \<and>
         slice out (12 + length authName) (12 + pad (length authName)) =
           replicate (pad (length authName) - length authName) 0 \<and>
         pad (length authName) mod 4 = 0 \<and>
         slice out (12 + pad (length authName)) (12 + pad (length authName) + 16) = authData \<and>
         slice out (12 + pad (length authName) + 16) (12 + pad (length authName) + pad 16) =
           replicate (pad 16 - 16) 0 \<and>
         pad 16 mod 4 = 0"
proof -
  let ?ln = "length authName"
  let ?h = "helloHeader ?ln (length authData)"
  have p16: "pad 16 = 16" by (simp add: pad_def)
  have shape: "out = ?h @ bytes_of authName @ replicate (pad ?ln - ?ln) 0 @ authData"
    unfolding out encodeHello_shape by (simp add: d16 p16)
  have lh: "length ?h = 12" by (rule header_fields)
  have lb: "length (bytes_of authName) = ?ln" by (simp add: bytes_of_def)
  have ge: "?ln \<le> pad ?ln" by (rule pad_ge)
  have len: "length out = 12 + pad ?ln + pad 16"
    unfolding shape using ge by (simp add: header_fields(1) lb d16 p16)
  have f: "out ! 0 = 0x6c" "out ! 1 = 0" "Get16 (drop 2 out) = 11" "Get16 (drop 4 out) = 0"
    "Get16 (drop 6 out) = of_nat ?ln"
    "Get16 (drop 8 out) = of_nat (length authData)" "Get16 (drop 10 out) = 0"
    unfolding shape by (rule header_fields)+
  have u1: "unat (Get16 (drop 6 out)) = ?ln"
    unfolding f using nl by (simp add: unat_of_nat)
  have u2: "unat (Get16 (drop 8 out)) = length authData"
    unfolding f by (simp add: d16)
  have s1: "slice out 12 (12 + ?ln) = bytes_of authName"
    unfolding shape slice_def by (simp add: header_fields(1) lb)
  have s2: "slice out (12 + ?ln) (12 + pad ?ln) = replicate (pad ?ln - ?ln) 0"
    unfolding shape slice_def by (simp add: header_fields(1) lb)
  have s3: "slice out (12 + pad ?ln) (12 + pad ?ln + 16) = authData"
    unfolding shape slice_def using ge by (simp add: header_fields(1) lb d16)
  have s4: "slice out (12 + pad ?ln + 16) (12 + pad ?ln + pad 16) = replicate (pad 16 - 16) 0"
    unfolding slice_def by (simp add: p16)
  have m: "pad ?ln mod 4 = 0" "pad 16 mod 4 = 0" by (rule pad_multiple)+
  show ?thesis using len f(1-4,7) u1 u2 s1 s2 s3 s4 m by blast
qed

theorem encodeHello_layout_witness:
  "length exampleCookie = 16 \<and> length ''MIT-MAGIC-COOKIE-1'' < 65536 \<and>
   length (encodeHello ''MIT-MAGIC-COOKIE-1'' exampleCookie) = 48 \<and>
   unat (Get16 (drop 6 (encodeHello ''MIT-MAGIC-COOKIE-1'' exampleCookie))) = 18 \<and>
   unat (Get16 (drop 8 (encodeHello ''MIT-MAGIC-COOKIE-1'' exampleCookie))) = 16 \<and>
   slice (encodeHello ''MIT-MAGIC-COOKIE-1'' exampleCookie) 12 30 =
     bytes_of ''MIT-MAGIC-COOKIE-1'' \<and>
   slice (encodeHello ''MIT-MAGIC-COOKIE-1'' exampleCookie) 30 32 = replicate 2 0 \<and>
   slice (encodeHello ''MIT-MAGIC-COOKIE-1'' exampleCookie) 32 48 = exampleCookie \<and>
   slice (encodeHello ''MIT-MAGIC-COOKIE-1'' exampleCookie) 48 48 = []"
proof -
  have n: "length ''MIT-MAGIC-COOKIE-1'' = 18" by simp
  have l: "length exampleCookie = 16" by (simp add: exampleCookie_def)
  have p: "pad 18 = 20" "pad 16 = 16" by (simp_all add: pad_def)
  have nl: "length ''MIT-MAGIC-COOKIE-1'' < 65536" by simp
  show ?thesis
    unfolding n l
    using encodeHello_layout [OF refl l nl, unfolded n l p]
    by simp
qed

subsection \<open>The transport\<close>

lemma splitHost_fields:
  "splitHost d i c = Inr (p, s, c1) \<Longrightarrow> Setup c1 = Setup c \<and> conn c1 = conn c \<and> defaultScreen c1 = defaultScreen c"
  by (auto simp: splitHost_def split: if_splits option.splits)

lemma splitScreen_fields:
  "splitScreen r c = (scr, c1) \<Longrightarrow> Setup c1 = Setup c \<and> conn c1 = conn c \<and> host c1 = host c"
  by (auto simp: splitScreen_def split: option.splits)

lemma parseDisplay_fields:
  assumes "parseDisplay env c dsp = Inr (v, c1)"
  shows "Setup c1 = Setup c \<and> conn c1 = conn c \<and> 0 \<le> dispnum v \<and>
         Atoi (display c1) = (dispnum v, None)"
  using assms unfolding parseDisplay_def Let_def
  by (auto split: option.splits sum.splits prod.splits if_splits
      dest!: splitHost_fields splitScreen_fields)

lemma dial_success:
  assumes "dial ext c dsp = (None, c1)"
  shows "\<exists>v c0 t. parseDisplay (getenvDISPLAY ext) c dsp = Inr (v, c0) \<and>
           netDial ext (fst (dialTarget v c0)) (snd (dialTarget v c0)) = Inr t \<and>
           c1 = c0\<lparr>conn := Some t\<rparr>"
  using assms unfolding dial_def
  by (auto split: sum.splits prod.splits)

lemma intAdd_exact:
  "0 \<le> n \<Longrightarrow> n < 2 ^ 63 - 6000 \<Longrightarrow> intAdd 6000 n = 6000 + n"
  by (simp add: intAdd_def)

lemma parse_leading_zeros:
  "parseDisplay '''' zeroConn '':007'' =
     Inr (\<lparr>protocol = '''', socket = '''', dispnum = 7\<rparr>,
          \<lparr>host = '''', display = ''007'', defaultScreen = 0, conn = None,
             Setup = \<lparr>Roots = []\<rparr>\<rparr>)"
  by (simp add: parse_defs zeroConn_def)

lemma parse_largest_display:
  "parseDisplay '''' zeroConn ''h:9223372036854775807'' =
     Inr (\<lparr>protocol = '''', socket = '''', dispnum = 9223372036854775807\<rparr>,
          \<lparr>host = ''h'', display = ''9223372036854775807'', defaultScreen = 0, conn = None,
             Setup = \<lparr>Roots = []\<rparr>\<rparr>)"
  by code_simp

lemma target_leading_zeros:
  "dialTarget \<lparr>protocol = '''', socket = '''', dispnum = 7\<rparr>
     \<lparr>host = '''', display = ''007'', defaultScreen = 0, conn = None,
        Setup = \<lparr>Roots = []\<rparr>\<rparr> = (''unix'', ''/tmp/.X11-unix/X007'')"
  by (simp add: dialTarget_def)

lemma target_largest_display:
  "dialTarget \<lparr>protocol = '''', socket = '''', dispnum = 9223372036854775807\<rparr>
     \<lparr>host = ''h'', display = ''9223372036854775807'', defaultScreen = 0, conn = None,
        Setup = \<lparr>Roots = []\<rparr>\<rparr> = (''tcp'', ''h:-9223372036854769809'')"
  by code_simp

lemma Itoa_examples:
  "Itoa 7 = ''7''" "Itoa (6000 + 9223372036854775807) = ''9223372036854781807''"
  "Itoa (6000 + 1) = ''6001''"
  by code_simp+

text \<open>
  Claim C8, as stated, at two display strings that \<open>dial\<close> parses. \<open>:007\<close> has the
  display number 7 and neither socket path nor host, so the claim gives the address
  \<open>/tmp/.X11-unix/X7\<close>; line 156 appends the text \<open>c.display\<close> and the address is
  \<open>/tmp/.X11-unix/X007\<close>. \<open>h:9223372036854775807\<close> has a host, so the claim gives
  the port 6000 plus the display number; on Go's \<open>int\<close> the sum of line 154 wraps
  around and the address is \<open>h:-9223372036854769809\<close>.
\<close>

theorem dial_address_counterexample:
  "parseDisplay '''' zeroConn '':007'' =
     Inr (\<lparr>protocol = '''', socket = '''', dispnum = 7\<rparr>,
          \<lparr>host = '''', display = ''007'', defaultScreen = 0, conn = None,
             Setup = \<lparr>Roots = []\<rparr>\<rparr>) \<and>
   dialTarget \<lparr>protocol = '''', socket = '''', dispnum = 7\<rparr>
     \<lparr>host = '''', display = ''007'', defaultScreen = 0, conn = None,
        Setup = \<lparr>Roots = []\<rparr>\<rparr> = (''unix'', ''/tmp/.X11-unix/X007'') \<and>
   ''/tmp/.X11-unix/X007'' \<noteq> ''/tmp/.X11-unix/X'' @ Itoa 7 \<and>
   parseDisplay '''' zeroConn ''h:9223372036854775807'' =
     Inr (\<lparr>protocol = '''', socket = '''', dispnum = 9223372036854775807\<rparr>,
          \<lparr>host = ''h'', display = ''9223372036854775807'', defaultScreen = 0, conn = None,
             Setup = \<lparr>Roots = []\<rparr>\<rparr>) \<and>
   dialTarget \<lparr>protocol = '''', socket = '''', dispnum = 9223372036854775807\<rparr>
     \<lparr>host = ''h'', display = ''9223372036854775807'', defaultScreen = 0, conn = None,
        Setup = \<lparr>Roots = []\<rparr>\<rparr> = (''tcp'', ''h:-9223372036854769809'') \<and>
   ''h:-9223372036854769809'' \<noteq> ''h:'' @ Itoa (6000 + 9223372036854775807)"
  unfolding parse_leading_zeros parse_largest_display target_leading_zeros
    target_largest_display Itoa_examples
  by simp

text \<open>
  Claim C8, amended: for every display string that \<open>dial\<close> parses, the transport is
  chosen by the first match. With a socket path, \<open>net.Dial\<close> is called with \<open>unix\<close>
  and the socket path, a colon and the display number as it is written in the
  display string (the text \<open>c.display\<close>, of which the display number is the value);
  otherwise, with a host, with the protocol (\<open>tcp\<close> when none is given) and the
  host, a colon and 6000 plus the display number, for every display number below
  \<open>2^63 - 6000\<close>; otherwise with \<open>unix\<close> and \<open>/tmp/.X11-unix/X\<close> followed by the
  display number as it is written in the display string.
\<close>

theorem dial_transport_selection:
  assumes p: "parseDisplay (getenvDISPLAY ext) c dsp = Inr (v, c1)"
  shows "Atoi (display c1) = (dispnum v, None) \<and> 0 \<le> dispnum v \<and>
         (socket v \<noteq> '''' \<longrightarrow>
            dialTarget v c1 = (''unix'', socket v @ '':'' @ display c1)) \<and>
         (socket v = '''' \<and> host c1 \<noteq> '''' \<and> dispnum v < 2 ^ 63 - 6000 \<longrightarrow>
            dialTarget v c1 =
              (if protocol v = '''' then ''tcp'' else protocol v,
               host c1 @ '':'' @ Itoa (6000 + dispnum v))) \<and>
         (socket v = '''' \<and> host c1 = '''' \<longrightarrow>
            dialTarget v c1 = (''unix'', ''/tmp/.X11-unix/X'' @ display c1)) \<and>
         dial ext c dsp =
           (case netDial ext (fst (dialTarget v c1)) (snd (dialTarget v c1)) of
              Inl msg \<Rightarrow>
                (Some (CannotConnect (displayString (getenvDISPLAY ext) dsp) msg),
                 c1\<lparr>conn := None\<rparr>)
            | Inr t \<Rightarrow> (None, c1\<lparr>conn := Some t\<rparr>))"
proof -
  have n: "0 \<le> dispnum v" and a: "Atoi (display c1) = (dispnum v, None)"
    using parseDisplay_fields [OF p] by simp_all
  have d: "dial ext c dsp =
           (case netDial ext (fst (dialTarget v c1)) (snd (dialTarget v c1)) of
              Inl msg \<Rightarrow>
                (Some (CannotConnect (displayString (getenvDISPLAY ext) dsp) msg),
                 c1\<lparr>conn := None\<rparr>)
            | Inr t \<Rightarrow> (None, c1\<lparr>conn := Some t\<rparr>))"
    by (simp add: dial_def p)
  have t: "socket v \<noteq> '''' \<longrightarrow>
            dialTarget v c1 = (''unix'', socket v @ '':'' @ display c1)"
    "socket v = '''' \<and> host c1 \<noteq> '''' \<and> dispnum v < 2 ^ 63 - 6000 \<longrightarrow>
            dialTarget v c1 =
              (if protocol v = '''' then ''tcp'' else protocol v,
               host c1 @ '':'' @ Itoa (6000 + dispnum v))"
    "socket v = '''' \<and> host c1 = '''' \<longrightarrow>
            dialTarget v c1 = (''unix'', ''/tmp/.X11-unix/X'' @ display c1)"
    using intAdd_exact [OF n] by (simp_all add: dialTarget_def)
  show ?thesis using n a d t by blast
qed

lemma parse_host_1:
  "parseDisplay '''' zeroConn ''host:1'' =
     Inr (\<lparr>protocol = '''', socket = '''', dispnum = 1\<rparr>,
          \<lparr>host = ''host'', display = ''1'', defaultScreen = 0, conn = None,
             Setup = \<lparr>Roots = []\<rparr>\<rparr>)"
  by (simp add: parse_defs zeroConn_def)

theorem dial_transport_selection_witness:
  "parseDisplay (getenvDISPLAY (exampleServer acceptReply)) zeroConn ''/tmp/s:0'' =
     Inr (\<lparr>protocol = '''', socket = ''/tmp/s'', dispnum = 0\<rparr>,
          \<lparr>host = '''', display = ''0'', defaultScreen = 0, conn = None,
             Setup = \<lparr>Roots = []\<rparr>\<rparr>) \<and>
   dialTarget \<lparr>protocol = '''', socket = ''/tmp/s'', dispnum = 0\<rparr>
     \<lparr>host = '''', display = ''0'', defaultScreen = 0, conn = None,
        Setup = \<lparr>Roots = []\<rparr>\<rparr> = (''unix'', ''/tmp/s:0'') \<and>
   parseDisplay (getenvDISPLAY (exampleServer acceptReply)) zeroConn ''host:1'' =
     Inr (\<lparr>protocol = '''', socket = '''', dispnum = 1\<rparr>,
          \<lparr>host = ''host'', display = ''1'', defaultScreen = 0, conn = None,
             Setup = \<lparr>Roots = []\<rparr>\<rparr>) \<and>
   Atoi ''1'' = (1, None) \<and>
   dialTarget \<lparr>protocol = '''', socket = '''', dispnum = 1\<rparr>
     \<lparr>host = ''host'', display = ''1'', defaultScreen = 0, conn = None,
        Setup = \<lparr>Roots = []\<rparr>\<rparr> = (''tcp'', ''host:6001'') \<and>
   parseDisplay (getenvDISPLAY (exampleServer acceptReply)) zeroConn '':0'' =
     Inr (\<lparr>protocol = '''', socket = '''', dispnum = 0\<rparr>,
          \<lparr>host = '''', display = ''0'', defaultScreen = 0, conn = None,
             Setup = \<lparr>Roots = []\<rparr>\<rparr>) \<and>
   dialTarget \<lparr>protocol = '''', socket = '''', dispnum = 0\<rparr>
     \<lparr>host = '''', display = ''0'', defaultScreen = 0, conn = None,
        Setup = \<lparr>Roots = []\<rparr>\<rparr> = (''unix'', ''/tmp/.X11-unix/X0'')"
proof -
  have e: "getenvDISPLAY (exampleServer acceptReply) = ''''"
    by (simp add: exampleServer_def)
  have p1: "parseDisplay (getenvDISPLAY (exampleServer acceptReply)) zeroConn ''/tmp/s:0'' =
     Inr (\<lparr>protocol = '''', socket = ''/tmp/s'', dispnum = 0\<rparr>,
          \<lparr>host = '''', display = ''0'', defaultScreen = 0, conn = None,
             Setup = \<lparr>Roots = []\<rparr>\<rparr>)"
    unfolding e by (rule parse_socket)
  have p2: "parseDisplay (getenvDISPLAY (exampleServer acceptReply)) zeroConn ''host:1'' =
     Inr (\<lparr>protocol = '''', socket = '''', dispnum = 1\<rparr>,
          \<lparr>host = ''host'', display = ''1'', defaultScreen = 0, conn = None,
             Setup = \<lparr>Roots = []\<rparr>\<rparr>)"
    unfolding e by (rule parse_host_1)
  have p3: "parseDisplay (getenvDISPLAY (exampleServer acceptReply)) zeroConn '':0'' =
     Inr (\<lparr>protocol = '''', socket = '''', dispnum = 0\<rparr>,
          \<lparr>host = '''', display = ''0'', defaultScreen = 0, conn = None,
             Setup = \<lparr>Roots = []\<rparr>\<rparr>)"
    unfolding e by (rule parse_display_only)
  show ?thesis
    using dial_transport_selection [OF p1] dial_transport_selection [OF p2]
      dial_transport_selection [OF p3] p1 p2 p3
    by (simp add: Itoa_examples [simplified])
qed

subsection \<open>The handshake\<close>

lemma ReadFull_closed: "closed (snd (ReadFull t n)) = closed t"
  by (simp add: ReadFull_def)

lemma readReply_closed: "closed (snd (readReply t)) = closed t"
proof -
  have a: "\<And>x t1. ReadFull t 8 = (x, t1) \<Longrightarrow> closed t1 = closed t"
    using ReadFull_closed [of t 8] by simp
  have b: "\<And>t1 n x t2. ReadFull t1 n = (x, t2) \<Longrightarrow> closed t2 = closed t1"
    subgoal for t1 n x t2 using ReadFull_closed [of t1 n] by simp
    done
  show ?thesis
    unfolding readReply_def Let_def
    by (auto split: prod.splits sum.splits dest: a b)
qed

lemma readReply_not_unsupported: "fst (readReply t) \<noteq> Inl (UnsupportedAuth n)"
  unfolding readReply_def Let_def refusalReason_def
  by (auto split: prod.splits sum.splits)

lemma handshake_not_unsupported: "fst (handshake ext c a d) \<noteq> Some (UnsupportedAuth n)"
proof -
  have r: "\<And>t t2. readReply t \<noteq> (Inl (UnsupportedAuth n), t2)"
    subgoal for t t2 using readReply_not_unsupported [of t n] by auto
    done
  show ?thesis
    unfolding handshake_def Let_def
    by (auto split: option.splits sum.splits prod.splits simp: r)
qed

lemma Write_closed: "Write t buf = Inr t1 \<Longrightarrow> closed t1 = closed t"
  by (auto simp: Write_def split: option.splits)

lemma handshake_failure_state:
  assumes h: "handshake ext c a d = (Some e, c')" and t: "conn c = Some t"
  shows "host c' = host c \<and> display c' = display c \<and> defaultScreen c' = defaultScreen c \<and>
         Setup c' = Setup c \<and> (\<exists>t'. conn c' = Some t' \<and> closed t' = closed t)"
proof (cases "Write t (encodeHello a d)")
  case (Inl er)
  then have "c' = c" using h t by (simp add: handshake_def)
  then show ?thesis using t by simp
next
  case (Inr t1)
  obtain x t2 where rr: "readReply t1 = (x, t2)" by (cases "readReply t1")
  have cl: "closed t2 = closed t"
    using readReply_closed [of t1] Write_closed [OF Inr] rr by simp
  show ?thesis
  proof (cases x)
    case (Inl er)
    then have "c' = c\<lparr>conn := Some t2\<rparr>"
      using h t Inr rr by (simp add: handshake_def)
    then show ?thesis using cl by simp
  next
    case (Inr buf)
    then have False
      using h t \<open>Write t (encodeHello a d) = Inr t1\<close> rr
      by (simp add: handshake_def Let_def split: if_splits)
    then show ?thesis ..
  qed
qed

lemma dial_example:
  "dial (exampleServer acceptReply) zeroConn '':0'' =
     (None, \<lparr>host = '''', display = ''0'', defaultScreen = 0,
              conn = Some \<lparr>incoming = acceptReply, outgoing = [], writeError = None,
                            closed = False\<rparr>,
              Setup = \<lparr>Roots = []\<rparr>\<rparr>)"
  by (simp add: dial_def exampleServer_def parse_display_only)

lemma dial_example_authority:
  "dial (withAuthority (''XDM-AUTHORIZATION-1'', exampleCookie) (exampleServer acceptReply))
     zeroConn '':0'' =
     (None, \<lparr>host = '''', display = ''0'', defaultScreen = 0,
              conn = Some \<lparr>incoming = acceptReply, outgoing = [], writeError = None,
                            closed = False\<rparr>,
              Setup = \<lparr>Roots = []\<rparr>\<rparr>)"
  by (simp add: dial_def exampleServer_def withAuthority_def parse_display_only)

text \<open>
  Claim C6: after a successful \<open>dial\<close>, a failure of the authority lookup does not
  fail \<open>connect\<close>. The two lines are printed, the credential becomes the empty name
  and no data with \<open>noauth\<close> set, and \<open>connect\<close> goes on with the handshake for that
  credential. \<open>connect\<close> returns the error \<open>unsupported auth protocol\<close> for a name
  exactly when the lookup succeeded with that name and the name is not
  \<open>MIT-MAGIC-COOKIE-1\<close> or the data is not 16 bytes long.
\<close>

theorem connect_authority:
  assumes d: "dial ext c dsp = (None, c1)"
  shows "(\<forall>e. readAuthority ext (host c1) (display c1) = Inl e \<longrightarrow>
            authority ext c1 = ('''', [], True, [CouldNotGetAuthority e, TryingWithoutAuthority]) \<and>
            connect ext c dsp =
              (fst (handshake ext c1 '''' []), snd (handshake ext c1 '''' []),
               [CouldNotGetAuthority e, TryingWithoutAuthority]) \<and>
            (\<forall>n. fst (connect ext c dsp) \<noteq> Some (UnsupportedAuth n))) \<and>
         (\<forall>n. (fst (connect ext c dsp) = Some (UnsupportedAuth n)) =
            (\<exists>authData. readAuthority ext (host c1) (display c1) = Inr (n, authData) \<and>
               (n \<noteq> ''MIT-MAGIC-COOKIE-1'' \<or> length authData \<noteq> 16)))"
proof -
  have fail: "authority ext c1 = ('''', [], True, [CouldNotGetAuthority e, TryingWithoutAuthority]) \<and>
            connect ext c dsp =
              (fst (handshake ext c1 '''' []), snd (handshake ext c1 '''' []),
               [CouldNotGetAuthority e, TryingWithoutAuthority]) \<and>
            (\<forall>n. fst (connect ext c dsp) \<noteq> Some (UnsupportedAuth n))"
    if l: "readAuthority ext (host c1) (display c1) = Inl e" for e
  proof -
    have a: "authority ext c1 = ('''', [], True, [CouldNotGetAuthority e, TryingWithoutAuthority])"
      by (simp add: authority_def l)
    have k: "connect ext c dsp =
              (fst (handshake ext c1 '''' []), snd (handshake ext c1 '''' []),
               [CouldNotGetAuthority e, TryingWithoutAuthority])"
      by (simp add: connect_def d a split: prod.splits)
    show ?thesis using a k handshake_not_unsupported [of ext c1 "''''" "[]"] by simp
  qed
  have iff: "(fst (connect ext c dsp) = Some (UnsupportedAuth n)) =
            (\<exists>authData. readAuthority ext (host c1) (display c1) = Inr (n, authData) \<and>
               (n \<noteq> ''MIT-MAGIC-COOKIE-1'' \<or> length authData \<noteq> 16))" for n
  proof (cases "readAuthority ext (host c1) (display c1)")
    case (Inl e)
    have "fst (connect ext c dsp) \<noteq> Some (UnsupportedAuth n)"
      using fail [OF Inl] by blast
    then show ?thesis using Inl by simp
  next
    case (Inr cred)
    obtain m authData where cr: "cred = (m, authData)" by (cases cred)
    have a: "authority ext c1 = (m, authData, False, [])"
      by (simp add: authority_def Inr cr)
    show ?thesis
    proof (cases "m \<noteq> ''MIT-MAGIC-COOKIE-1'' \<or> length authData \<noteq> 16")
      case True
      then have "fst (connect ext c dsp) = Some (UnsupportedAuth m)"
        by (auto simp: connect_def d a)
      then show ?thesis using True Inr cr by auto
    next
      case False
      then have "fst (connect ext c dsp) = fst (handshake ext c1 m authData)"
        by (simp add: connect_def d a split: prod.splits)
      then show ?thesis
        using False Inr cr handshake_not_unsupported [of ext c1 m authData n] by auto
    qed
  qed
  show ?thesis using fail iff by blast
qed

theorem connect_authority_witness:
  "dial (exampleServer acceptReply) zeroConn '':0'' =
     (None, \<lparr>host = '''', display = ''0'', defaultScreen = 0,
              conn = Some \<lparr>incoming = acceptReply, outgoing = [], writeError = None,
                            closed = False\<rparr>,
              Setup = \<lparr>Roots = []\<rparr>\<rparr>) \<and>
   readAuthority (exampleServer acceptReply) '''' ''0'' = Inl ''no authority file'' \<and>
   snd (snd (connect (exampleServer acceptReply) zeroConn '':0'')) =
     [CouldNotGetAuthority ''no authority file'', TryingWithoutAuthority] \<and>
   fst (connect (exampleServer acceptReply) zeroConn '':0'') \<noteq> Some (UnsupportedAuth '''') \<and>
   dial (withAuthority (''XDM-AUTHORIZATION-1'', exampleCookie) (exampleServer acceptReply))
     zeroConn '':0'' =
     (None, \<lparr>host = '''', display = ''0'', defaultScreen = 0,
              conn = Some \<lparr>incoming = acceptReply, outgoing = [], writeError = None,
                            closed = False\<rparr>,
              Setup = \<lparr>Roots = []\<rparr>\<rparr>) \<and>
   readAuthority (withAuthority (''XDM-AUTHORIZATION-1'', exampleCookie)
     (exampleServer acceptReply)) '''' ''0'' = Inr (''XDM-AUTHORIZATION-1'', exampleCookie) \<and>
   fst (connect (withAuthority (''XDM-AUTHORIZATION-1'', exampleCookie)
     (exampleServer acceptReply)) zeroConn '':0'') = Some (UnsupportedAuth ''XDM-AUTHORIZATION-1'')"
proof -
  let ?C = "\<lparr>host = '''', display = ''0'', defaultScreen = 0,
              conn = Some \<lparr>incoming = acceptReply, outgoing = [], writeError = None,
                            closed = False\<rparr>,
              Setup = \<lparr>Roots = []\<rparr>\<rparr>"
  let ?S = "exampleServer acceptReply"
  let ?S' = "withAuthority (''XDM-AUTHORIZATION-1'', exampleCookie) (exampleServer acceptReply)"
  have r1: "readAuthority ?S (host ?C) (display ?C) = Inl ''no authority file''"
    by (simp add: exampleServer_def)
  have r2: "readAuthority ?S' h d = Inr (''XDM-AUTHORIZATION-1'', exampleCookie)" for h d
    by (simp add: withAuthority_def)
  note m = conjunct1 [OF connect_authority [OF dial_example], rule_format, OF r1]
  have a1: "snd (snd (connect ?S zeroConn '':0'')) =
     [CouldNotGetAuthority ''no authority file'', TryingWithoutAuthority]"
    using conjunct1 [OF conjunct2 [OF m]] by simp
  have a2: "fst (connect ?S zeroConn '':0'') \<noteq> Some (UnsupportedAuth [])"
    using conjunct2 [OF conjunct2 [OF m]] by blast
  note k = conjunct2 [OF connect_authority [OF dial_example_authority], rule_format,
      of "''XDM-AUTHORIZATION-1''"]
  have b: "fst (connect ?S' zeroConn '':0'') = Some (UnsupportedAuth ''XDM-AUTHORIZATION-1'')"
    unfolding k r2 by simp
  have r1': "readAuthority ?S [] ''0'' = Inl ''no authority file''"
    using r1 by simp
  show ?thesis using a1 a2 b r1' r2 dial_example dial_example_authority by simp
qed

lemma connect_mismatch_example:
  "connect (exampleServer mismatchReply) zeroConn ''h:1.2'' =
     (Some (VersionMismatch 10 0),
      \<lparr>host = ''h'', display = ''1'', defaultScreen = 2,
         conn = Some \<lparr>incoming = [], outgoing = [108, 0, 11, 0, 0, 0, 0, 0, 0, 0, 0, 0],
                       writeError = None, closed = False\<rparr>,
         Setup = \<lparr>Roots = []\<rparr>\<rparr>,
      [CouldNotGetAuthority ''no authority file'', TryingWithoutAuthority])"
  by code_simp

lemma dial_mismatch_example:
  "dial (exampleServer mismatchReply) zeroConn ''h:1.2'' =
     (None, \<lparr>host = ''h'', display = ''1'', defaultScreen = 2,
              conn = Some \<lparr>incoming = mismatchReply, outgoing = [], writeError = None,
                            closed = False\<rparr>,
              Setup = \<lparr>Roots = []\<rparr>\<rparr>)"
  by code_simp

text \<open>
  Claim C9, as stated: after a handshake that fails behind \<open>dial\<close>, the fields of the
  connection record are as if never assigned. At the display string \<open>h:1.2\<close> and a
  server that answers with version 10.0, \<open>connect\<close> returns the version mismatch,
  and the record has the host \<open>h\<close>, the display \<open>1\<close>, the default screen 2 and the
  transport, which is not closed.
\<close>

theorem connect_failure_counterexample:
  "fst (dial (exampleServer mismatchReply) zeroConn ''h:1.2'') = None \<and>
   connect (exampleServer mismatchReply) zeroConn ''h:1.2'' =
     (Some (VersionMismatch 10 0),
      \<lparr>host = ''h'', display = ''1'', defaultScreen = 2,
         conn = Some \<lparr>incoming = [], outgoing = [108, 0, 11, 0, 0, 0, 0, 0, 0, 0, 0, 0],
                       writeError = None, closed = False\<rparr>,
         Setup = \<lparr>Roots = []\<rparr>\<rparr>,
      [CouldNotGetAuthority ''no authority file'', TryingWithoutAuthority]) \<and>
   fst (snd (connect (exampleServer mismatchReply) zeroConn ''h:1.2'')) \<noteq> zeroConn"
  unfolding connect_mismatch_example dial_mismatch_example
  by (simp add: zeroConn_def)

text \<open>
  Claim C9, amended: when \<open>connect\<close> fails after \<open>dial\<close> has succeeded, it returns
  the error and the setup is untouched (the setup parser has not run); the record
  is not rolled back: the host, the display and the default screen keep the values
  that \<open>dial\<close> assigned, and the transport stays in the record, as open or closed
  as \<open>net.Dial\<close> returned it (\<open>connect\<close> does not close it).
\<close>

theorem connect_failure_state:
  assumes d: "dial ext c dsp = (None, c1)"
      and f: "connect ext c dsp = (Some e, c', logged)"
  shows "Setup c' = Setup c \<and> host c' = host c1 \<and> display c' = display c1 \<and>
         defaultScreen c' = defaultScreen c1 \<and>
         (\<exists>t0 t. conn c1 = Some t0 \<and> conn c' = Some t \<and> closed t = closed t0)"
proof -
  obtain v c0 t0 where p: "parseDisplay (getenvDISPLAY ext) c dsp = Inr (v, c0)"
    and c1: "c1 = c0\<lparr>conn := Some t0\<rparr>"
    using dial_success [OF d] by blast
  have s: "Setup c1 = Setup c" using parseDisplay_fields [OF p] c1 by simp
  have t0: "conn c1 = Some t0" using c1 by simp
  obtain authName authData noauth lg where a: "authority ext c1 = (authName, authData, noauth, lg)"
    by (cases "authority ext c1") auto
  show ?thesis
  proof (cases "\<not> noauth \<and> (authName \<noteq> ''MIT-MAGIC-COOKIE-1'' \<or> length authData \<noteq> 16)")
    case True
    then have "c' = c1" using f by (auto simp: connect_def d a)
    then show ?thesis using s t0 by simp
  next
    case False
    then have "handshake ext c1 authName authData = (Some e, c')"
      using f by (auto simp: connect_def d a split: prod.splits)
    from handshake_failure_state [OF this t0] show ?thesis using s t0 by auto
  qed
qed

theorem connect_failure_state_witness:
  "dial (exampleServer mismatchReply) zeroConn ''h:1.2'' =
     (None, \<lparr>host = ''h'', display = ''1'', defaultScreen = 2,
              conn = Some \<lparr>incoming = mismatchReply, outgoing = [], writeError = None,
                            closed = False\<rparr>,
              Setup = \<lparr>Roots = []\<rparr>\<rparr>) \<and>
   fst (connect (exampleServer mismatchReply) zeroConn ''h:1.2'') = Some (VersionMismatch 10 0) \<and>
   Setup (fst (snd (connect (exampleServer mismatchReply) zeroConn ''h:1.2''))) = Setup zeroConn \<and>
   host (fst (snd (connect (exampleServer mismatchReply) zeroConn ''h:1.2''))) = ''h'' \<and>
   display (fst (snd (connect (exampleServer mismatchReply) zeroConn ''h:1.2''))) = ''1'' \<and>
   defaultScreen (fst (snd (connect (exampleServer mismatchReply) zeroConn ''h:1.2''))) = 2 \<and>
   map_option closed (conn (fst (snd (connect (exampleServer mismatchReply) zeroConn ''h:1.2'')))) =
     Some False"
  using connect_failure_state [OF dial_mismatch_example connect_mismatch_example]
    dial_mismatch_example
  by (auto simp: connect_mismatch_example)

text \<open>
  Lines 84 to 86: after a successful handshake the default screen is 0 when the
  requested one is at or above the number of screens, and the requested one
  otherwise.
\<close>

lemma handshake_default_screen:
  assumes "handshake ext c a d = (None, c')"
  shows "defaultScreen c' =
           (if int (length (Roots (Setup c'))) \<le> defaultScreen c then 0 else defaultScreen c)"
  using assms unfolding handshake_def Let_def
  by (auto split: option.splits sum.splits prod.splits if_splits)

text \<open>
  Claim C7, at the display string \<open>:0.-1\<close> and a server that accepts and has one
  screen: the requested screen \<open>-1\<close> is not an index into the screens, so the claim
  gives the default screen 0. Line 84 compares only against the number of screens,
  and \<open>connect\<close> succeeds with the default screen \<open>-1\<close>.
\<close>

theorem connect_negative_screen_kept:
  "fst (connect (exampleServer acceptReply) zeroConn '':0.-1'') = None \<and>
   defaultScreen (fst (snd (connect (exampleServer acceptReply) zeroConn '':0.-1''))) = - 1 \<and>
   length (Roots (Setup (fst (snd (connect (exampleServer acceptReply) zeroConn '':0.-1''))))) = 1"
  by code_simp

theorem connect_negative_screen_kept_witness:
  "defaultScreen (fst (snd (connect (exampleServer acceptReply) zeroConn '':0.-1''))) < 0"
  using connect_negative_screen_kept by simp

text \<open>
  Lines 55 to 68: a header that announces another version ends \<open>connect\<close> with the
  version mismatch, and only the eight bytes of the header have been read.
\<close>

lemma readReply_version_mismatch:
  assumes "8 \<le> length (incoming t)"
      and "Get16 (drop 2 (incoming t)) \<noteq> 11 \<or> Get16 (drop 4 (incoming t)) \<noteq> 0"
  shows "readReply t =
           (Inl (VersionMismatch (Get16 (drop 2 (incoming t))) (Get16 (drop 4 (incoming t)))),
            t\<lparr>incoming := drop 8 (incoming t)\<rparr>)"
proof -
  have g: "Get16 (drop 2 (take 8 (incoming t))) = Get16 (drop 2 (incoming t))"
    "Get16 (drop 4 (take 8 (incoming t))) = Get16 (drop 4 (incoming t))"
    using assms(1) by (simp_all add: Get16_def)
  show ?thesis
    using assms by (auto simp: readReply_def ReadFull_def Let_def g)
qed

text \<open>
  Lines 55 to 80 when the header announces version 11.0 and the body arrives: the
  body of \<open>4 * dataLen\<close> bytes is read behind the header; status 0 gives the
  refusal (or the panic of line 77), every other status gives the whole buffer.
\<close>

lemma Get16_take:
  "i + 2 \<le> n \<Longrightarrow> n \<le> length xs \<Longrightarrow> Get16 (drop i (take n xs)) = Get16 (drop i xs)"
  by (simp add: Get16_def)

lemma readReply_body:
  assumes l: "8 \<le> length (incoming t)"
      and v: "Get16 (drop 2 (incoming t)) = 11" "Get16 (drop 4 (incoming t)) = 0"
      and k: "k = unat (Get16 (drop 6 (incoming t))) * 4"
      and b: "8 + k \<le> length (incoming t)"
  shows "readReply t =
           (if incoming t ! 0 = 0
            then Inl (refusalReason (take (8 + k) (incoming t)) (incoming t ! 1))
            else Inr (take (8 + k) (incoming t)),
            t\<lparr>incoming := drop (8 + k) (incoming t)\<rparr>)"
proof -
  have g: "Get16 (drop 2 (take 8 (incoming t))) = 11" "Get16 (drop 4 (take 8 (incoming t))) = 0"
    "unat (Get16 (drop 6 (take 8 (incoming t)))) * 4 = k"
    using l v k by (simp_all add: Get16_take)
  have r: "ReadFull t 8 = (Inr (take 8 (incoming t)), t\<lparr>incoming := drop 8 (incoming t)\<rparr>)"
    using l by (simp add: ReadFull_def)
  have d: "drop k (drop 8 (incoming t)) = drop (8 + k) (incoming t)"
    by (simp add: add.commute)
  have kl: "k \<le> length (incoming t) - 8" using b by simp
  have r2: "ReadFull (t\<lparr>incoming := drop 8 (incoming t)\<rparr>) k =
              (Inr (take k (drop 8 (incoming t))), t\<lparr>incoming := drop (8 + k) (incoming t)\<rparr>)"
    unfolding ReadFull_def using kl by (simp add: add.commute)
  have a: "take 8 (incoming t) @ take k (drop 8 (incoming t)) = take (8 + k) (incoming t)"
    by (simp add: take_add)
  have h: "take 8 (incoming t) ! 0 = incoming t ! 0" "take 8 (incoming t) ! 1 = incoming t ! 1"
    by simp_all
  show ?thesis
    unfolding readReply_def r Let_def prod.case sum.case g r2 a h by simp
qed

text \<open>
  Claim C3, at a server that answers with status 0, a reason length of 250,
  version 11.0 and a body of 63 units (252 bytes): the claim gives the refusal with
  the first 250 bytes of the body as the reason. \<open>8+reasonLen\<close> is computed on 8
  bits and is 2, and the slice expression \<open>buf[8:2]\<close> panics.
\<close>

theorem connect_long_refusal_panics:
  "longRefusal = [0, 250, 11, 0, 0, 0, 63, 0] @ replicate (4 * 63) 65 \<and>
   fst (connect (exampleServer longRefusal) zeroConn '':0'') = Some (SliceBoundsPanic 8 2)"
  by code_simp

theorem connect_long_refusal_panics_witness:
  "fst (connect (exampleServer longRefusal) zeroConn '':0'') \<noteq>
     Some (AuthRefused (replicate 250 CHR ''A''))"
  using connect_long_refusal_panics by simp

text \<open>
  Claim C10, at a reason length of 248 and a body of 62 units (248 bytes): the
  reason length is not above four times the body units, so the claim has the
  extraction in range. \<open>8+reasonLen\<close> is computed on 8 bits and is 0, and the slice
  expression \<open>buf[8:0]\<close> is out of range.
\<close>

theorem refusalReason_wraps_at_248:
  "unat (248 :: byte) \<le> 4 * 62 \<and>
   length (replicate (8 + 4 * 62) (0 :: byte)) = 8 + 4 * 62 \<and>
   refusalReason (replicate (8 + 4 * 62) 0) 248 = SliceBoundsPanic 8 0"
  by (simp add: refusalReason_def)

text \<open>
  The extraction of the reason is in range exactly when the reason length is below
  248 and the buffer has that many bytes behind the header.
\<close>

lemma refusalReason_in_range:
  "(\<exists>r. refusalReason buf reasonLen = AuthRefused r) =
     (unat reasonLen < 248 \<and> 8 + unat reasonLen \<le> length buf)"
proof -
  have u: "unat (8 + reasonLen) = (8 + unat reasonLen) mod 256"
    by (simp add: unat_word_ariths)
  have b: "unat reasonLen < 256" using unsigned_less [of reasonLen, where ?'a = nat] by simp
  show ?thesis
  proof (cases "unat reasonLen < 248")
    case True
    then have "unat (8 + reasonLen) = 8 + unat reasonLen" unfolding u by simp
    then show ?thesis using True by (simp add: refusalReason_def)
  next
    case False
    then have "unat (8 + reasonLen) = 8 + unat reasonLen - 256"
      unfolding u using b by (simp add: mod_if)
    then have "unat (8 + reasonLen) < 8" using b by simp
    then show ?thesis using False by (simp add: refusalReason_def)
  qed
qed

end
